theory Spec2Isabelle
  imports Main
begin

section \<open>The EU collector connectivity check (tasks/base/collector/connectEu.go)\<close>

text \<open>
  A shallow embedding of the task \<open>Base/Collector/ConnectEU\<close>: the region gate
  (\<open>prepareEarlyResult\<close>), the three classification helpers and \<open>Execute\<close>.
  Go strings are byte sequences and are modelled as \<open>string\<close>; a Go \<open>error\<close> value
  is modelled as \<open>error option\<close>, \<open>None\<close> being \<open>nil\<close>.
\<close>

subsection \<open>Data declared outside the file\<close>

text \<open>
  Modelled from the spec: \<open>tasks.Status\<close> is declared outside this file. The spec gives
  the ordered enumeration None, Success, Warning, Failure, with None the "not evaluated"
  marker; it is the value a freshly declared Result carries.
\<close>

datatype Status = None_Status | Success | Warning | Failure

text \<open>
  The dynamic type of a \<open>Payload\<close> (Go's \<open>interface{}\<close>): the nil interface, a
  \<open>[]string\<close>, or a value of some other dynamic type. The type assertion
  \<open>.([]string)\<close> succeeds on \<open>StringSlice\<close> only.
\<close>

datatype Payload =
    NilPayload
  | StringSlice "string list"
  | StringPayload string
  | IntPayload int
  | BoolPayload bool
  | MapPayload "(string \<times> string) list"

text \<open>
  Modelled from the spec: \<open>httpHelper.RequestWrapper\<close> is declared outside this file;
  the probe takes a method, a URL and a timeout in seconds.
\<close>

record RequestWrapper =
  Method :: string
  URL :: string
  TimeoutSeconds :: int

text \<open>
  Modelled from the spec: \<open>tasks.Result\<close> is declared outside this file; its fields
  are status, summary, url and payload.
\<close>

record Result =
  Status :: Status
  Summary :: string
  URL :: string
  Payload :: Payload

text \<open>The zero value \<open>tasks.Result{}\<close>, which \<open>var result tasks.Result\<close> declares.\<close>

definition Result_zero :: Result where
  "Result_zero = \<lparr>Status = None_Status, Summary = [], URL = [], Payload = NilPayload\<rparr>"

text \<open>
  Modelled from the spec: \<open>tasks.Options\<close> is declared outside this file; the spec
  describes it as an execution-options object exposing at least "was this exact task
  forced to run".
\<close>

record Options =
  forcedRun :: bool

text \<open>
  \<open>config.Flags\<close> is process-wide configuration declared outside this file. Its
  method \<open>IsForcedTask\<close> is taken as a parameter.
\<close>

record userFlags =
  IsForcedTask :: "string \<Rightarrow> bool"

text \<open>A non-nil Go \<open>error\<close>; \<open>Error\<close> is its text.\<close>

datatype error = errorString string

fun Error :: "error \<Rightarrow> string" where
  "Error (errorString s) = s"

text \<open>
  The body stream of a response, as \<open>ioutil.ReadAll\<close> sees it: the bytes it delivers
  and the error the read ends with (\<open>None\<close> at a clean end of stream).
\<close>

record ReadCloser =
  data :: string
  readErr :: "error option"

record Response =
  StatusCode :: int
  Body :: ReadCloser

text \<open>
  \<open>requestFunc\<close>: a Go function returning \<open>(*http.Response, error)\<close>; either
  component may be nil.
\<close>

type_synonym requestFunc = "RequestWrapper \<Rightarrow> Response option \<times> error option"

record BaseCollectorConnectEU =
  upstream :: "string \<rightharpoonup> Result"
  httpGetter :: requestFunc

text \<open>
  What \<open>Execute\<close> does besides returning: calls of the injected probe, reads and
  closes of the body stream, and debug log lines, in the order they happen.
\<close>

datatype event =
    HttpGet RequestWrapper
  | ReadAll
  | BodyClose
  | Debug "string list"

datatype panic = NilPointerDereference

subsection \<open>Library functions\<close>

text \<open>
  Modelled from the spec: \<open>tasks.StringInSlice\<close> is declared outside this file; the
  spec reads it as membership of the region code in the sequence.
\<close>

fun StringInSlice :: "string \<Rightarrow> string list \<Rightarrow> bool" where
  "StringInSlice a [] = False"
| "StringInSlice a (b # list) = (if b = a then True else StringInSlice a list)"

text \<open>
  Modelled from the spec: \<open>tasks.Identifier\<close>, \<open>tasks.IdentifierFromString\<close> and its
  \<open>String\<close> method are declared outside this file; an identity is a triple and its
  string format is \<open>Category/Subcategory/Name\<close>.
\<close>

record Identifier_t =
  Category :: string
  Subcategory :: string
  Name :: string

fun splitSlash :: "string \<Rightarrow> string list" where
  "splitSlash [] = [[]]"
| "splitSlash (c # cs) =
     (if c = CHR ''/'' then [] # splitSlash cs
      else (case splitSlash cs of [] \<Rightarrow> [[c]] | w # ws \<Rightarrow> (c # w) # ws))"

definition IdentifierFromString :: "string \<Rightarrow> Identifier_t" where
  "IdentifierFromString ident =
     (case splitSlash ident of
        [c, s, n] \<Rightarrow> \<lparr>Category = c, Subcategory = s, Name = n\<rparr>
      | _ \<Rightarrow> \<lparr>Category = [], Subcategory = [], Name = []\<rparr>)"

definition String :: "Identifier_t \<Rightarrow> string" where
  "String i = Category i @ ''/'' @ Subcategory i @ ''/'' @ Name i"

text \<open>
  \<open>strconv.Itoa\<close>: the decimal text of an integer, with a minus sign for a negative
  one. Go's \<open>int\<close> is 64 bits wide; \<open>Itoa\<close> does no arithmetic that could wrap, so
  the model takes any integer.
\<close>

definition digit :: "nat \<Rightarrow> char" where
  "digit d = ''0123456789'' ! d"

fun utoa :: "nat \<Rightarrow> string" where
  "utoa n = (if n < 10 then [digit n] else utoa (n div 10) @ [digit (n mod 10)])"

declare utoa.simps [simp del]

definition Itoa :: "int \<Rightarrow> string" where
  "Itoa i = (if i < 0 then CHR ''-'' # utoa (nat (- i)) else utoa (nat i))"

subsection \<open>The task\<close>

definition Identifier :: "BaseCollectorConnectEU \<Rightarrow> Identifier_t" where
  "Identifier p = IdentifierFromString ''Base/Collector/ConnectEU''"

definition Explain :: "BaseCollectorConnectEU \<Rightarrow> string" where
  "Explain p = ''Check network connection to New Relic EU region collector endpoint''"

definition Dependencies :: "BaseCollectorConnectEU \<Rightarrow> string list" where
  "Dependencies p = [''Base/Config/ProxyDetect'', ''Base/Config/RegionDetect'']"

text \<open>
  Reading a Go map at an absent key gives the zero value of the element type.
\<close>

definition lookup :: "(string \<rightharpoonup> Result) \<Rightarrow> string \<Rightarrow> Result" where
  "lookup m k = (case m k of None \<Rightarrow> Result_zero | Some r \<Rightarrow> r)"

text \<open>The checked type assertion \<open>x.([]string)\<close>: the value and \<open>ok\<close>.\<close>

fun assertStringSlice :: "Payload \<Rightarrow> string list \<times> bool" where
  "assertStringSlice (StringSlice regions) = (regions, True)"
| "assertStringSlice _ = ([], False)"

definition prepareEarlyResult :: "BaseCollectorConnectEU \<Rightarrow> Result" where
  "prepareEarlyResult p =
     (let result = Result_zero;
          (regions, ok) = assertStringSlice (Payload (lookup (upstream p) ''Base/Config/RegionDetect''))
      in if ok then
           (if \<not> StringInSlice ''eu01'' regions \<and> length regions > 0 then
              result\<lparr>Status := None_Status,
                     Summary := ''EU Region not detected, skipping EU collector connect check''\<rparr>
            else result)
         else result)"

definition prepareCollectorErrorResult :: "BaseCollectorConnectEU \<Rightarrow> error option \<Rightarrow> Result" where
  "prepareCollectorErrorResult p e =
     (let result = Result_zero in
      case e of
        None \<Rightarrow> result
      | Some err \<Rightarrow>
          result\<lparr>Status := Failure,
                 Summary := (''There was an error connecting to collector.newrelic.com (EU Region)''
                   @ ''\<newline>Please check network and proxy settings and try again or see -help for more options.'')
                   @ (''\<newline>Error = '' @ Error err),
                 URL := ''https://docs.newrelic.com/docs/apm/new-relic-apm/getting-started/networks''\<rparr>)"

definition prepareResponseErrorResult ::
  "BaseCollectorConnectEU \<Rightarrow> error option \<Rightarrow> string \<Rightarrow> Result" where
  "prepareResponseErrorResult p e statusCode =
     (let result = Result_zero in
      case e of
        None \<Rightarrow> result
      | Some err \<Rightarrow>
          result\<lparr>Status := Warning,
                 Summary := ((''Status = '' @ statusCode
                     @ ''. When connecting to the EU Region collector, there was an issue reading the body. '')
                   @ ''\<newline>Please check network and proxy settings and try again or see -help for more options.'')
                   @ (''Error = '' @ Error err),
                 URL := ''https://docs.newrelic.com/docs/apm/new-relic-apm/getting-started/networks''\<rparr>)"

text \<open>
  \<open>prepareResult\<close> writes debug lines; the log so far is passed in and returned
  extended.
\<close>

definition prepareResult ::
  "BaseCollectorConnectEU \<Rightarrow> string \<Rightarrow> string \<Rightarrow> event list \<Rightarrow> Result \<times> event list" where
  "prepareResult p body statusCode t =
     (let result = Result_zero in
      if statusCode = ''200'' then
        (result\<lparr>Status := Success,
                Summary := ''Status Code = '' @ statusCode @ '' Body = '' @ body\<rparr>,
         t @ [Debug [''Successfully connected'']])
      else
        (result\<lparr>Status := Warning,
                Summary := ((''collector.newrelic.com (EU Region) returned a non-200 STATUS CODE: '' @ statusCode)
                   @ ''\<newline>Please check network and proxy settings and try again or see -help for more options.'')
                   @ (''\<newline>Response Body: '' @ body),
                URL := ''https://docs.newrelic.com/docs/apm/new-relic-apm/getting-started/networks''\<rparr>,
         t @ [Debug [''Non-200 response received from collector.newrelic.com:'', statusCode],
              Debug [''Body:'', body]]))"

text \<open>The locals \<open>url\<close> and \<open>wrapper\<close> of \<open>Execute\<close>.\<close>

definition url :: string where
  "url = ''https://collector.eu.newrelic.com/jserrors/ping''"

definition wrapper :: RequestWrapper where
  "wrapper = \<lparr>Method = ''GET'', RequestWrapper.URL = url, TimeoutSeconds = 30\<rparr>"

text \<open>
  \<open>Execute\<close>, with the process-wide \<open>config.Flags\<close> and the trace of effects so far as
  explicit arguments. The receiver is a copy, so the assignment to \<open>p.upstream\<close> is
  local. \<open>early\<close> is the Result of the first \<open>return\<close>, when it is taken. A nil
  response with a nil error panics where \<open>resp.Body\<close> is evaluated for the deferred
  \<open>Close\<close>; the deferred call itself runs when the function returns, after the
  classification.
\<close>

definition Execute ::
  "userFlags \<Rightarrow> BaseCollectorConnectEU \<Rightarrow> Options \<Rightarrow> (string \<rightharpoonup> Result) \<Rightarrow> event list
     \<Rightarrow> (panic + Result) \<times> event list" where
  "Execute Flags p0 op upstream' t =
     (let p = p0\<lparr>upstream := upstream'\<rparr>;
          early =
            (if \<not> IsForcedTask Flags (String (Identifier p)) then
               (let result = prepareEarlyResult p in
                if result \<noteq> Result_zero then Some result else None)
             else None)
      in case early of
           Some result \<Rightarrow> (Inr result, t)
         | None \<Rightarrow>
             (let (resp, err) = httpGetter p wrapper;
                  t1 = t @ [HttpGet wrapper]
              in case err of
                   Some e \<Rightarrow> (Inr (prepareCollectorErrorResult p err), t1)
                 | None \<Rightarrow>
                     (case resp of
                        None \<Rightarrow> (Inl NilPointerDereference, t1)
                      | Some r \<Rightarrow>
                          (let t2 = t1 @ [ReadAll] in
                           case readErr (Body r) of
                             Some e \<Rightarrow>
                               (Inr (prepareResponseErrorResult p (readErr (Body r)) (Itoa (StatusCode r))),
                                t2 @ [BodyClose])
                           | None \<Rightarrow>
                               (let (result, t3) = prepareResult p (data (Body r)) (Itoa (StatusCode r)) t2
                                in (Inr result, t3 @ [BodyClose]))))))"

text \<open>Observers of a trace: how often the probe was called and the body closed.\<close>

fun isHttpGet :: "event \<Rightarrow> bool" where
  "isHttpGet (HttpGet w) = True"
| "isHttpGet _ = False"

definition probeCalls :: "event list \<Rightarrow> nat" where
  "probeCalls t = length (filter isHttpGet t)"

definition bodyCloses :: "event list \<Rightarrow> nat" where
  "bodyCloses t = count_list t BodyClose"

subsection \<open>The decision table of the specification\<close>

text \<open>
  The table of the specification's section 4.3, in its words and its order (first match
  wins): a transport error gives Failure, then a body-read error gives Warning, then
  status code "200" gives Success, and any other status code gives Warning.
\<close>

definition spec_decisionTable :: "bool \<Rightarrow> bool \<Rightarrow> string \<Rightarrow> Status" where
  "spec_decisionTable transport_error body_read_error status_code =
     (if transport_error then Failure
      else if body_read_error then Warning
      else if status_code = ''200'' then Success
      else Warning)"

subsection \<open>Example inputs\<close>

text \<open>Flag settings: no task forced, and this task forced.\<close>

definition flagsNoneForced :: userFlags where
  "flagsNoneForced = \<lparr>IsForcedTask = (\<lambda>identifier. False)\<rparr>"

definition flagsForced :: userFlags where
  "flagsForced = \<lparr>IsForcedTask = (\<lambda>identifier. identifier = ''Base/Collector/ConnectEU'')\<rparr>"

definition optionsPlain :: Options where
  "optionsPlain = \<lparr>forcedRun = False\<rparr>"

definition optionsForced :: Options where
  "optionsForced = \<lparr>forcedRun = True\<rparr>"

text \<open>Upstream stores: no entry, a US region, no region, a payload of another type.\<close>

definition upstreamAbsent :: "string \<rightharpoonup> Result" where
  "upstreamAbsent = Map.empty"

definition upstreamUS :: "string \<rightharpoonup> Result" where
  "upstreamUS =
     [''Base/Config/RegionDetect'' \<mapsto>
        \<lparr>Status = Success, Summary = [], URL = [], Payload = StringSlice [''us01'']\<rparr>]"

definition upstreamNoRegion :: "string \<rightharpoonup> Result" where
  "upstreamNoRegion =
     [''Base/Config/RegionDetect'' \<mapsto>
        \<lparr>Status = Success, Summary = [], URL = [], Payload = StringSlice []\<rparr>]"

definition upstreamWrongType :: "string \<rightharpoonup> Result" where
  "upstreamWrongType =
     [''Base/Config/RegionDetect'' \<mapsto>
        \<lparr>Status = Success, Summary = [], URL = [], Payload = StringPayload ''us01''\<rparr>]"

text \<open>Probes: a 200 with body OK, a 200 with no body, a 503, a failed read, a refused connection.\<close>

definition get200 :: requestFunc where
  "get200 w = (Some \<lparr>StatusCode = 200, Body = \<lparr>data = ''OK'', readErr = None\<rparr>\<rparr>, None)"

definition get200Empty :: requestFunc where
  "get200Empty w = (Some \<lparr>StatusCode = 200, Body = \<lparr>data = [], readErr = None\<rparr>\<rparr>, None)"

definition get503 :: requestFunc where
  "get503 w = (Some \<lparr>StatusCode = 503, Body = \<lparr>data = ''unavailable'', readErr = None\<rparr>\<rparr>, None)"

definition getReadFailure :: requestFunc where
  "getReadFailure w =
     (Some \<lparr>StatusCode = 200,
            Body = \<lparr>data = ''O'', readErr = Some (errorString ''unexpected EOF'')\<rparr>\<rparr>, None)"

definition getRefused :: requestFunc where
  "getRefused w = (None, Some (errorString ''connection refused''))"

definition taskWith :: "requestFunc \<Rightarrow> BaseCollectorConnectEU" where
  "taskWith g = \<lparr>upstream = Map.empty, httpGetter = g\<rparr>"

section \<open>Properties\<close>

subsection \<open>The identifier and the decimal text of a status code\<close>

lemma splitSlash_id: "splitSlash ''Base/Collector/ConnectEU'' = [''Base'', ''Collector'', ''ConnectEU'']"
  by code_simp

lemma String_Identifier: "String (Identifier p) = ''Base/Collector/ConnectEU''"
  by (simp add: String_def Identifier_def IdentifierFromString_def splitSlash_id)

lemma Itoa_200: "Itoa 200 = ''200''"
  by (simp add: Itoa_def utoa.simps digit_def)

lemma digit_cases:
  "d < 10 \<Longrightarrow> d = 0 \<or> d = 1 \<or> d = 2 \<or> d = 3 \<or> d = 4 \<or> d = 5 \<or> d = 6 \<or> d = 7 \<or> d = 8 \<or> d = (9::nat)"
  by arith

lemma digit_zero: "d < 10 \<Longrightarrow> digit d = CHR ''0'' \<longleftrightarrow> d = 0"
  using digit_cases [of d] by (auto simp: digit_def)

lemma digit_two: "d < 10 \<Longrightarrow> digit d = CHR ''2'' \<longleftrightarrow> d = 2"
  using digit_cases [of d] by (auto simp: digit_def)

lemma utoa_not_Nil: "utoa n \<noteq> []"
  by (subst utoa.simps) simp

lemma utoa_single: "utoa n = [c] \<longleftrightarrow> n < 10 \<and> c = digit n"
  by (subst utoa.simps) (auto simp: utoa_not_Nil)

lemma utoa_snoc: "utoa n = cs @ [c] \<Longrightarrow> cs \<noteq> [] \<Longrightarrow> utoa (n div 10) = cs \<and> digit (n mod 10) = c"
  by (subst (asm) utoa.simps) (auto split: if_splits)

lemma utoa_200: "utoa n = ''200'' \<longleftrightarrow> n = 200"
proof
  assume h: "utoa n = ''200''"
  have "utoa n = ''20'' @ [CHR ''0'']" using h by simp
  then have a: "utoa (n div 10) = ''20''" and b: "digit (n mod 10) = CHR ''0''"
    using utoa_snoc by blast+
  have "utoa (n div 10) = ''2'' @ [CHR ''0'']" using a by simp
  then have c: "utoa (n div 10 div 10) = ''2''" and d: "digit (n div 10 mod 10) = CHR ''0''"
    using utoa_snoc by blast+
  from c have e: "n div 10 div 10 < 10" and f: "digit (n div 10 div 10) = CHR ''2''"
    by (simp_all add: utoa_single)
  from b have "n mod 10 = 0" by (simp add: digit_zero)
  moreover from d have "n div 10 mod 10 = 0" by (simp add: digit_zero)
  moreover from e f have "n div 10 div 10 = 2" by (simp add: digit_two)
  ultimately have m: "n mod 10 = 0" "n div 10 mod 10 = 0" "n div 10 div 10 = 2" by simp_all
  have "n div 10 = 20" using div_mult_mod_eq [of "n div 10" 10] m by simp
  then show "n = 200" using div_mult_mod_eq [of n 10] m by simp
next
  assume "n = 200"
  then show "utoa n = ''200''" by (simp add: utoa.simps digit_def)
qed

lemma Itoa_eq_200: "Itoa i = ''200'' \<longleftrightarrow> i = 200"
proof (cases "i < 0")
  case True
  then show ?thesis by (simp add: Itoa_def)
next
  case False
  then show ?thesis by (auto simp: Itoa_def utoa_200)
qed

subsection \<open>The shape of a run\<close>

lemma StringInSlice_set: "StringInSlice a list \<longleftrightarrow> a \<in> set list"
  by (induction list) auto

lemma prepareEarlyResult_cases:
  "prepareEarlyResult p =
     (case Payload (lookup (upstream p) ''Base/Config/RegionDetect'') of
        StringSlice regions \<Rightarrow>
          if ''eu01'' \<notin> set regions \<and> regions \<noteq> []
          then \<lparr>Status = None_Status,
                 Summary = ''EU Region not detected, skipping EU collector connect check'',
                 URL = [], Payload = NilPayload\<rparr>
          else Result_zero
      | _ \<Rightarrow> Result_zero)"
  by (simp add: prepareEarlyResult_def Result_zero_def StringInSlice_set
      split: Payload.splits)

lemma Execute_skip:
  assumes "\<not> IsForcedTask Flags ''Base/Collector/ConnectEU''"
    and "prepareEarlyResult (p\<lparr>upstream := up\<rparr>) \<noteq> Result_zero"
  shows "Execute Flags p op up t = (Inr (prepareEarlyResult (p\<lparr>upstream := up\<rparr>)), t)"
  using assms by (simp add: Execute_def String_Identifier Let_def)

lemma Execute_probe:
  assumes "IsForcedTask Flags ''Base/Collector/ConnectEU'' \<or> prepareEarlyResult (p\<lparr>upstream := up\<rparr>) = Result_zero"
  shows "Execute Flags p op up t =
     (case httpGetter p wrapper of
        (resp, Some e) \<Rightarrow> (Inr (prepareCollectorErrorResult (p\<lparr>upstream := up\<rparr>) (Some e)), t @ [HttpGet wrapper])
      | (None, None) \<Rightarrow> (Inl NilPointerDereference, t @ [HttpGet wrapper])
      | (Some r, None) \<Rightarrow>
          (case readErr (Body r) of
             Some e \<Rightarrow> (Inr (prepareResponseErrorResult (p\<lparr>upstream := up\<rparr>) (Some e) (Itoa (StatusCode r))),
                        t @ [HttpGet wrapper, ReadAll, BodyClose])
           | None \<Rightarrow> (Inr (fst (prepareResult (p\<lparr>upstream := up\<rparr>) (data (Body r)) (Itoa (StatusCode r)) (t @ [HttpGet wrapper, ReadAll]))),
                      snd (prepareResult (p\<lparr>upstream := up\<rparr>) (data (Body r)) (Itoa (StatusCode r)) (t @ [HttpGet wrapper, ReadAll])) @ [BodyClose])))"
  using assms
  by (auto simp: Execute_def String_Identifier Let_def split: prod.splits option.splits)

lemma probeCalls_append: "probeCalls (t @ u) = probeCalls t + probeCalls u"
  by (simp add: probeCalls_def)

lemma bodyCloses_append: "bodyCloses (t @ u) = bodyCloses t + bodyCloses u"
  by (induction t) (simp_all add: bodyCloses_def)

lemma prepareResult_trace:
  "snd (prepareResult p body statusCode t) =
     t @ (if statusCode = ''200'' then [Debug [''Successfully connected'']]
          else [Debug [''Non-200 response received from collector.newrelic.com:'', statusCode],
                Debug [''Body:'', body]])"
  by (simp add: prepareResult_def)

lemma invoked_gate_open:
  assumes "probeCalls (snd (Execute Flags p op up t)) = Suc (probeCalls t)"
  shows "IsForcedTask Flags ''Base/Collector/ConnectEU''
           \<or> prepareEarlyResult (p\<lparr>upstream := up\<rparr>) = Result_zero"
proof (rule ccontr)
  assume "\<not> ?thesis"
  then have "Execute Flags p op up t = (Inr (prepareEarlyResult (p\<lparr>upstream := up\<rparr>)), t)"
    by (simp add: Execute_skip)
  with assms show False by simp
qed

lemma gate_open_unknown:
  assumes "up ''Base/Config/RegionDetect'' = None
     \<or> (\<exists>r. up ''Base/Config/RegionDetect'' = Some r
            \<and> (Payload r = StringSlice [] \<or> (\<forall>regions. Payload r \<noteq> StringSlice regions)))"
  shows "prepareEarlyResult (p\<lparr>upstream := up\<rparr>) = Result_zero"
  using assms
  by (auto simp: prepareEarlyResult_cases lookup_def Result_zero_def split: Payload.splits)

lemma Execute_probe_trace:
  assumes "IsForcedTask Flags ''Base/Collector/ConnectEU''
     \<or> prepareEarlyResult (p\<lparr>upstream := up\<rparr>) = Result_zero"
  shows "\<exists>rest. snd (Execute Flags p op up t) = t @ HttpGet wrapper # rest \<and> probeCalls rest = 0"
  by (simp add: Execute_probe [OF assms] prepareResult_trace probeCalls_def
      split: prod.splits option.splits)

lemma Execute_probe_status:
  assumes "IsForcedTask Flags ''Base/Collector/ConnectEU''
     \<or> prepareEarlyResult (p\<lparr>upstream := up\<rparr>) = Result_zero"
    and "fst (Execute Flags p op up t) = Inr r"
  shows "Status r \<noteq> None_Status"
  using assms(2)
  by (auto simp: Execute_probe [OF assms(1)] prepareCollectorErrorResult_def
      prepareResponseErrorResult_def prepareResult_def Result_zero_def Let_def
      split: prod.splits option.splits if_splits)

lemma URL_prepareEarlyResult:
  "URL (prepareEarlyResult p) = [] \<and> Status (prepareEarlyResult p) = None_Status"
  by (simp add: prepareEarlyResult_cases Result_zero_def split: Payload.splits)

lemma URL_prepareCollectorErrorResult:
  "(URL (prepareCollectorErrorResult p e) \<noteq> []) =
     (Status (prepareCollectorErrorResult p e) = Warning \<or> Status (prepareCollectorErrorResult p e) = Failure)"
  by (simp add: prepareCollectorErrorResult_def Result_zero_def Let_def split: option.splits)

lemma URL_prepareResponseErrorResult:
  "(URL (prepareResponseErrorResult p e sc) \<noteq> []) =
     (Status (prepareResponseErrorResult p e sc) = Warning \<or> Status (prepareResponseErrorResult p e sc) = Failure)"
  by (simp add: prepareResponseErrorResult_def Result_zero_def Let_def split: option.splits)

lemma URL_prepareResult:
  "(URL (fst (prepareResult p body sc t)) \<noteq> []) =
     (Status (fst (prepareResult p body sc t)) = Warning \<or> Status (fst (prepareResult p body sc t)) = Failure)"
  by (simp add: prepareResult_def Result_zero_def Let_def)

lemma Execute_probe_result:
  assumes "IsForcedTask Flags ''Base/Collector/ConnectEU''
     \<or> prepareEarlyResult (p\<lparr>upstream := up\<rparr>) = Result_zero"
    and "fst (Execute Flags p op up t) = Inr r"
  shows "(\<exists>e. r = prepareCollectorErrorResult (p\<lparr>upstream := up\<rparr>) e)
       \<or> (\<exists>e sc. r = prepareResponseErrorResult (p\<lparr>upstream := up\<rparr>) e sc)
       \<or> (\<exists>body sc t'. r = fst (prepareResult (p\<lparr>upstream := up\<rparr>) body sc t'))"
  using assms(2)
  by (simp add: Execute_probe [OF assms(1)] split: prod.splits option.splits) blast+

subsection \<open>The region gate\<close>

text \<open>
  C1. Whenever the upstream store's entry \<open>Base/Config/RegionDetect\<close> carries a
  non-empty list of region codes that does not contain \<open>eu01\<close>, and the task is not
  forced, \<open>Execute\<close> returns the Result with status None and the summary
  "EU Region not detected, skipping EU collector connect check", and the trace of
  effects is the one it started with: the injected probe is not called.
\<close>

theorem Execute_skips_undetected_region:
  assumes "up ''Base/Config/RegionDetect'' = Some r"
    and "Payload r = StringSlice regions"
    and "regions \<noteq> []"
    and "''eu01'' \<notin> set regions"
    and "\<not> IsForcedTask Flags ''Base/Collector/ConnectEU''"
  shows "Execute Flags p op up t =
           (Inr \<lparr>Status = None_Status,
                 Summary = ''EU Region not detected, skipping EU collector connect check'',
                 URL = [], Payload = NilPayload\<rparr>, t)"
proof -
  have early: "prepareEarlyResult (p\<lparr>upstream := up\<rparr>) =
      \<lparr>Status = None_Status,
       Summary = ''EU Region not detected, skipping EU collector connect check'',
       URL = [], Payload = NilPayload\<rparr>"
    using assms(1-4) by (simp add: prepareEarlyResult_cases lookup_def)
  then have "prepareEarlyResult (p\<lparr>upstream := up\<rparr>) \<noteq> Result_zero"
    by (simp add: Result_zero_def)
  with assms(5) early show ?thesis
    by (simp add: Execute_skip)
qed

theorem Execute_skips_undetected_region_witness:
  "upstreamUS ''Base/Config/RegionDetect''
       = Some \<lparr>Status = Success, Summary = [], URL = [], Payload = StringSlice [''us01'']\<rparr>
   \<and> \<not> IsForcedTask flagsNoneForced ''Base/Collector/ConnectEU''
   \<and> Execute flagsNoneForced (taskWith get200) optionsPlain upstreamUS [] =
           (Inr \<lparr>Status = None_Status,
                 Summary = ''EU Region not detected, skipping EU collector connect check'',
                 URL = [], Payload = NilPayload\<rparr>, [])"
proof -
  have h1: "upstreamUS ''Base/Config/RegionDetect''
       = Some \<lparr>Status = Success, Summary = [], URL = [], Payload = StringSlice [''us01'']\<rparr>"
    by (simp add: upstreamUS_def)
  have h2: "Payload \<lparr>Status = Success, Summary = [], URL = [], Payload = StringSlice [''us01'']\<rparr>
       = StringSlice [''us01'']" by simp
  have h3: "[''us01''] \<noteq> []" by simp
  have h4: "''eu01'' \<notin> set [''us01'']" by simp
  have h5: "\<not> IsForcedTask flagsNoneForced ''Base/Collector/ConnectEU''"
    by (simp add: flagsNoneForced_def)
  show ?thesis
    using h1 h5
      Execute_skips_undetected_region [where up = upstreamUS and regions = "[''us01'']" and Flags = flagsNoneForced
        and p = "taskWith get200" and op = optionsPlain and t = "[]", OF h1 h2 h3 h4 h5]
    by simp
qed

text \<open>
  C4. The gate fails open. Whenever the upstream store has no entry
  \<open>Base/Config/RegionDetect\<close>, or the entry's payload is the empty list of strings, or
  the payload is not a list of strings, \<open>Execute\<close> calls the probe: the trace continues
  with the call of the probe, the number of probe calls grows by one, and no Result it
  returns has status None. This holds whether or not the task is forced.
\<close>

theorem Execute_gate_fails_open:
  assumes "up ''Base/Config/RegionDetect'' = None
     \<or> (\<exists>r. up ''Base/Config/RegionDetect'' = Some r
            \<and> (Payload r = StringSlice [] \<or> (\<forall>regions. Payload r \<noteq> StringSlice regions)))"
  shows "(\<exists>rest. snd (Execute Flags p op up t) = t @ HttpGet wrapper # rest)
       \<and> probeCalls (snd (Execute Flags p op up t)) = Suc (probeCalls t)
       \<and> (\<forall>r. fst (Execute Flags p op up t) = Inr r \<longrightarrow> Status r \<noteq> None_Status)"
proof -
  have open_gate: "IsForcedTask Flags ''Base/Collector/ConnectEU''
     \<or> prepareEarlyResult (p\<lparr>upstream := up\<rparr>) = Result_zero"
    using gate_open_unknown [where up = up, OF assms] by simp
  obtain rest where tr: "snd (Execute Flags p op up t) = t @ HttpGet wrapper # rest"
    and rest: "probeCalls rest = 0"
    using Execute_probe_trace [OF open_gate] by blast
  have "probeCalls (snd (Execute Flags p op up t)) = Suc (probeCalls t)"
    using rest by (simp add: tr probeCalls_def)
  moreover have "\<forall>r. fst (Execute Flags p op up t) = Inr r \<longrightarrow> Status r \<noteq> None_Status"
    using Execute_probe_status [OF open_gate] by blast
  ultimately show ?thesis using tr by blast
qed

theorem Execute_gate_fails_open_witness:
  "(upstreamAbsent ''Base/Config/RegionDetect'' = None
      \<and> probeCalls (snd (Execute flagsNoneForced (taskWith get200) optionsPlain upstreamAbsent [])) = 1)
   \<and> (upstreamNoRegion ''Base/Config/RegionDetect''
          = Some \<lparr>Status = Success, Summary = [], URL = [], Payload = StringSlice []\<rparr>
      \<and> probeCalls (snd (Execute flagsNoneForced (taskWith get200) optionsPlain upstreamNoRegion [])) = 1)
   \<and> (upstreamWrongType ''Base/Config/RegionDetect''
          = Some \<lparr>Status = Success, Summary = [], URL = [], Payload = StringPayload ''us01''\<rparr>
      \<and> probeCalls (snd (Execute flagsNoneForced (taskWith get200) optionsPlain upstreamWrongType [])) = 1)"
proof -
  have a: "upstreamAbsent ''Base/Config/RegionDetect'' = None"
    by (simp add: upstreamAbsent_def)
  have b: "upstreamNoRegion ''Base/Config/RegionDetect''
          = Some \<lparr>Status = Success, Summary = [], URL = [], Payload = StringSlice []\<rparr>"
    by (simp add: upstreamNoRegion_def)
  have c: "upstreamWrongType ''Base/Config/RegionDetect''
          = Some \<lparr>Status = Success, Summary = [], URL = [], Payload = StringPayload ''us01''\<rparr>"
    by (simp add: upstreamWrongType_def)
  have ha: "upstreamAbsent ''Base/Config/RegionDetect'' = None
     \<or> (\<exists>r. upstreamAbsent ''Base/Config/RegionDetect'' = Some r
            \<and> (Payload r = StringSlice [] \<or> (\<forall>regions. Payload r \<noteq> StringSlice regions)))"
    using a by simp
  have hb: "upstreamNoRegion ''Base/Config/RegionDetect'' = None
     \<or> (\<exists>r. upstreamNoRegion ''Base/Config/RegionDetect'' = Some r
            \<and> (Payload r = StringSlice [] \<or> (\<forall>regions. Payload r \<noteq> StringSlice regions)))"
    using b by simp
  have hc: "upstreamWrongType ''Base/Config/RegionDetect'' = None
     \<or> (\<exists>r. upstreamWrongType ''Base/Config/RegionDetect'' = Some r
            \<and> (Payload r = StringSlice [] \<or> (\<forall>regions. Payload r \<noteq> StringSlice regions)))"
    using c by simp
  have "probeCalls (snd (Execute flagsNoneForced (taskWith get200) optionsPlain upstreamAbsent [])) = 1"
    using Execute_gate_fails_open [where up = upstreamAbsent and Flags = flagsNoneForced
        and p = "taskWith get200" and op = optionsPlain and t = "[]", OF ha]
    by (simp add: probeCalls_def)
  moreover have "probeCalls (snd (Execute flagsNoneForced (taskWith get200) optionsPlain upstreamNoRegion [])) = 1"
    using Execute_gate_fails_open [where up = upstreamNoRegion and Flags = flagsNoneForced
        and p = "taskWith get200" and op = optionsPlain and t = "[]", OF hb]
    by (simp add: probeCalls_def)
  moreover have "probeCalls (snd (Execute flagsNoneForced (taskWith get200) optionsPlain upstreamWrongType [])) = 1"
    using Execute_gate_fails_open [where up = upstreamWrongType and Flags = flagsNoneForced
        and p = "taskWith get200" and op = optionsPlain and t = "[]", OF hc]
    by (simp add: probeCalls_def)
  ultimately show ?thesis using a b c by simp
qed

text \<open>
  C3, as stated, makes the forced-run signal a part of the execution-options argument.
  \<open>Execute\<close> never reads that argument: with the options saying "forced", no forced
  task in \<open>config.Flags\<close> and the region list \<open>["us01"]\<close>, the gate skips and the
  probe is not called.
\<close>

theorem Execute_options_forcedRun_unread:
  "forcedRun optionsForced
   \<and> Execute flagsNoneForced (taskWith get200) optionsForced upstreamUS [] =
       (Inr \<lparr>Status = None_Status,
             Summary = ''EU Region not detected, skipping EU collector connect check'',
             URL = [], Payload = NilPayload\<rparr>, [])
   \<and> probeCalls (snd (Execute flagsNoneForced (taskWith get200) optionsForced upstreamUS [])) = 0"
proof -
  have early: "prepareEarlyResult (taskWith get200\<lparr>upstream := upstreamUS\<rparr>) =
      \<lparr>Status = None_Status,
       Summary = ''EU Region not detected, skipping EU collector connect check'',
       URL = [], Payload = NilPayload\<rparr>"
    by (simp add: prepareEarlyResult_cases lookup_def upstreamUS_def)
  then have "prepareEarlyResult (taskWith get200\<lparr>upstream := upstreamUS\<rparr>) \<noteq> Result_zero"
    by (simp add: Result_zero_def)
  moreover have "\<not> IsForcedTask flagsNoneForced ''Base/Collector/ConnectEU''"
    by (simp add: flagsNoneForced_def)
  ultimately have "Execute flagsNoneForced (taskWith get200) optionsForced upstreamUS [] =
       (Inr \<lparr>Status = None_Status,
             Summary = ''EU Region not detected, skipping EU collector connect check'',
             URL = [], Payload = NilPayload\<rparr>, [])"
    using early by (simp add: Execute_skip)
  then show ?thesis by (simp add: optionsForced_def probeCalls_def)
qed

text \<open>
  C3, amended. Whenever \<open>config.Flags.IsForcedTask\<close> holds of the identifier
  \<open>Base/Collector/ConnectEU\<close>, the probe is called exactly once, whatever the upstream
  store holds (also a non-empty region list without \<open>eu01\<close>); and the run does not
  depend on the execution-options argument, which \<open>Execute\<close> does not read.
\<close>

theorem Execute_forced_flag_invokes_probe:
  assumes "IsForcedTask Flags ''Base/Collector/ConnectEU''"
  shows "(\<exists>rest. snd (Execute Flags p op up t) = t @ HttpGet wrapper # rest)
       \<and> probeCalls (snd (Execute Flags p op up t)) = Suc (probeCalls t)
       \<and> Execute Flags p op up t = Execute Flags p op' up t"
proof -
  have open_gate: "IsForcedTask Flags ''Base/Collector/ConnectEU''
     \<or> prepareEarlyResult (p\<lparr>upstream := up\<rparr>) = Result_zero"
    using assms by simp
  obtain rest where tr: "snd (Execute Flags p op up t) = t @ HttpGet wrapper # rest"
    and rest: "probeCalls rest = 0"
    using Execute_probe_trace [OF open_gate] by blast
  have "probeCalls (snd (Execute Flags p op up t)) = Suc (probeCalls t)"
    using rest by (simp add: tr probeCalls_def)
  moreover have "Execute Flags p op up t = Execute Flags p op' up t"
    by (simp add: Execute_def)
  ultimately show ?thesis using tr by blast
qed

theorem Execute_forced_flag_invokes_probe_witness:
  "IsForcedTask flagsForced ''Base/Collector/ConnectEU''
   \<and> snd (Execute flagsForced (taskWith get200) optionsPlain upstreamUS [])
       = [HttpGet wrapper, ReadAll, Debug [''Successfully connected''], BodyClose]
   \<and> probeCalls (snd (Execute flagsForced (taskWith get200) optionsPlain upstreamUS [])) = 1"
proof -
  have h: "IsForcedTask flagsForced ''Base/Collector/ConnectEU''"
    by (simp add: flagsForced_def)
  have g: "httpGetter (taskWith get200) wrapper
      = (Some \<lparr>StatusCode = 200, Body = \<lparr>data = ''OK'', readErr = None\<rparr>\<rparr>, None)"
    by (simp add: taskWith_def get200_def)
  have "snd (Execute flagsForced (taskWith get200) optionsPlain upstreamUS [])
       = [HttpGet wrapper, ReadAll, Debug [''Successfully connected''], BodyClose]"
    using h g by (simp add: Execute_probe prepareResult_trace Itoa_200)
  then show ?thesis
    using h Execute_forced_flag_invokes_probe [OF h, of "taskWith get200" optionsPlain upstreamUS "[]" optionsPlain]
    by (simp add: probeCalls_def)
qed

subsection \<open>The classification of the response\<close>

text \<open>
  C5. Whenever the probe was called and returned a non-nil transport error \<open>e\<close>,
  \<open>Execute\<close> returns the Result with status Failure, whose summary is the fixed
  advisory text followed by "Error = " and the whole text of \<open>e\<close>, and whose url is the
  documentation link.
\<close>

theorem Execute_transport_error_Failure:
  assumes "probeCalls (snd (Execute Flags p op up t)) = Suc (probeCalls t)"
    and "snd (httpGetter p wrapper) = Some e"
  shows "fst (Execute Flags p op up t) =
     Inr \<lparr>Status = Failure,
          Summary = ''There was an error connecting to collector.newrelic.com (EU Region)''
            @ ''\<newline>Please check network and proxy settings and try again or see -help for more options.''
            @ ''\<newline>Error = '' @ Error e,
          URL = ''https://docs.newrelic.com/docs/apm/new-relic-apm/getting-started/networks'',
          Payload = NilPayload\<rparr>"
proof -
  obtain resp where g: "httpGetter p wrapper = (resp, Some e)"
    using assms(2) by (cases "httpGetter p wrapper") simp
  show ?thesis
    by (simp add: Execute_probe [OF invoked_gate_open [OF assms(1)]] g
        prepareCollectorErrorResult_def Result_zero_def split: option.splits)
qed

theorem Execute_transport_error_Failure_witness:
  "probeCalls (snd (Execute flagsNoneForced (taskWith getRefused) optionsPlain upstreamNoRegion []))
      = Suc (probeCalls [])
   \<and> snd (httpGetter (taskWith getRefused) wrapper) = Some (errorString ''connection refused'')
   \<and> fst (Execute flagsNoneForced (taskWith getRefused) optionsPlain upstreamNoRegion []) =
     Inr \<lparr>Status = Failure,
          Summary = ''There was an error connecting to collector.newrelic.com (EU Region)''
            @ ''\<newline>Please check network and proxy settings and try again or see -help for more options.''
            @ ''\<newline>Error = connection refused'',
          URL = ''https://docs.newrelic.com/docs/apm/new-relic-apm/getting-started/networks'',
          Payload = NilPayload\<rparr>"
proof -
  have gate: "prepareEarlyResult (taskWith getRefused\<lparr>upstream := upstreamNoRegion\<rparr>) = Result_zero"
    by (simp add: prepareEarlyResult_cases lookup_def upstreamNoRegion_def)
  have g: "httpGetter (taskWith getRefused) wrapper = (None, Some (errorString ''connection refused''))"
    by (simp add: taskWith_def getRefused_def)
  have h1: "probeCalls (snd (Execute flagsNoneForced (taskWith getRefused) optionsPlain upstreamNoRegion []))
      = Suc (probeCalls [])"
    by (simp add: Execute_probe gate g probeCalls_def)
  have h2: "snd (httpGetter (taskWith getRefused) wrapper) = Some (errorString ''connection refused'')"
    by (simp add: g)
  show ?thesis using h1 h2 Execute_transport_error_Failure [OF h1 h2] by simp
qed

text \<open>
  C6. Whenever the probe was called and returned a response with status code 200 whose
  body reads without error, \<open>Execute\<close> returns the Result with status Success and the
  summary "Status Code = 200 Body = " followed by the body, whatever the body is (the
  empty body too).
\<close>

theorem Execute_status_200_Success:
  assumes "probeCalls (snd (Execute Flags p op up t)) = Suc (probeCalls t)"
    and "httpGetter p wrapper = (Some r, None)"
    and "StatusCode r = 200"
    and "readErr (Body r) = None"
  shows "fst (Execute Flags p op up t) =
     Inr \<lparr>Status = Success, Summary = ''Status Code = 200 Body = '' @ data (Body r),
          URL = [], Payload = NilPayload\<rparr>"
  by (simp add: Execute_probe [OF invoked_gate_open [OF assms(1)]] assms(2-4) Itoa_200
      prepareResult_def Result_zero_def)

theorem Execute_status_200_Success_witness:
  "(probeCalls (snd (Execute flagsNoneForced (taskWith get200) optionsPlain upstreamAbsent []))
      = Suc (probeCalls [])
    \<and> httpGetter (taskWith get200) wrapper
        = (Some \<lparr>StatusCode = 200, Body = \<lparr>data = ''OK'', readErr = None\<rparr>\<rparr>, None)
    \<and> fst (Execute flagsNoneForced (taskWith get200) optionsPlain upstreamAbsent []) =
        Inr \<lparr>Status = Success, Summary = ''Status Code = 200 Body = OK'',
             URL = [], Payload = NilPayload\<rparr>)
   \<and> (probeCalls (snd (Execute flagsNoneForced (taskWith get200Empty) optionsPlain upstreamAbsent []))
      = Suc (probeCalls [])
    \<and> httpGetter (taskWith get200Empty) wrapper
        = (Some \<lparr>StatusCode = 200, Body = \<lparr>data = [], readErr = None\<rparr>\<rparr>, None)
    \<and> fst (Execute flagsNoneForced (taskWith get200Empty) optionsPlain upstreamAbsent []) =
        Inr \<lparr>Status = Success, Summary = ''Status Code = 200 Body = '',
             URL = [], Payload = NilPayload\<rparr>)"
proof -
  have gate: "\<And>g. prepareEarlyResult (taskWith g\<lparr>upstream := upstreamAbsent\<rparr>) = Result_zero"
    by (simp add: prepareEarlyResult_cases lookup_def upstreamAbsent_def Result_zero_def)
  have g1: "httpGetter (taskWith get200) wrapper
        = (Some \<lparr>StatusCode = 200, Body = \<lparr>data = ''OK'', readErr = None\<rparr>\<rparr>, None)"
    by (simp add: taskWith_def get200_def)
  have g2: "httpGetter (taskWith get200Empty) wrapper
        = (Some \<lparr>StatusCode = 200, Body = \<lparr>data = [], readErr = None\<rparr>\<rparr>, None)"
    by (simp add: taskWith_def get200Empty_def)
  have p1: "probeCalls (snd (Execute flagsNoneForced (taskWith get200) optionsPlain upstreamAbsent []))
      = Suc (probeCalls [])"
    by (simp add: Execute_probe gate g1 probeCalls_def prepareResult_trace)
  have p2: "probeCalls (snd (Execute flagsNoneForced (taskWith get200Empty) optionsPlain upstreamAbsent []))
      = Suc (probeCalls [])"
    by (simp add: Execute_probe gate g2 probeCalls_def prepareResult_trace)
  show ?thesis
    using p1 g1 p2 g2 Execute_status_200_Success [OF p1 g1] Execute_status_200_Success [OF p2 g2] by simp
qed

text \<open>
  C7. Whenever the probe was called and returned a response and no error, the trace
  of \<open>Execute\<close> holds exactly one more close of the body stream than before: the
  trace continues with the call of the probe and the read of the body, then events that
  are no close, and the close is the last event, on the read-error path as on the two
  paths through \<open>prepareResult\<close>.
\<close>

theorem Execute_closes_body_once:
  assumes "probeCalls (snd (Execute Flags p op up t)) = Suc (probeCalls t)"
    and "httpGetter p wrapper = (Some r, None)"
  shows "bodyCloses (snd (Execute Flags p op up t)) = Suc (bodyCloses t)
       \<and> (\<exists>mid. snd (Execute Flags p op up t) = t @ [HttpGet wrapper, ReadAll] @ mid @ [BodyClose]
                 \<and> bodyCloses mid = 0)"
proof (cases "readErr (Body r)")
  case None
  then show ?thesis
    by (simp add: Execute_probe [OF invoked_gate_open [OF assms(1)]] assms(2)
        prepareResult_trace bodyCloses_append)
      (simp add: bodyCloses_def)
next
  case (Some e)
  then show ?thesis
    by (simp add: Execute_probe [OF invoked_gate_open [OF assms(1)]] assms(2)
        bodyCloses_append)
      (simp add: bodyCloses_def)
qed

theorem Execute_closes_body_once_witness:
  "(probeCalls (snd (Execute flagsNoneForced (taskWith get200) optionsPlain upstreamAbsent []))
      = Suc (probeCalls [])
    \<and> bodyCloses (snd (Execute flagsNoneForced (taskWith get200) optionsPlain upstreamAbsent [])) = 1)
   \<and> (probeCalls (snd (Execute flagsNoneForced (taskWith get503) optionsPlain upstreamAbsent []))
      = Suc (probeCalls [])
    \<and> bodyCloses (snd (Execute flagsNoneForced (taskWith get503) optionsPlain upstreamAbsent [])) = 1)
   \<and> (probeCalls (snd (Execute flagsNoneForced (taskWith getReadFailure) optionsPlain upstreamAbsent []))
      = Suc (probeCalls [])
    \<and> bodyCloses (snd (Execute flagsNoneForced (taskWith getReadFailure) optionsPlain upstreamAbsent [])) = 1)"
proof -
  have gate: "\<And>g. prepareEarlyResult (taskWith g\<lparr>upstream := upstreamAbsent\<rparr>) = Result_zero"
    by (simp add: prepareEarlyResult_cases lookup_def upstreamAbsent_def Result_zero_def)
  have g1: "httpGetter (taskWith get200) wrapper
        = (Some \<lparr>StatusCode = 200, Body = \<lparr>data = ''OK'', readErr = None\<rparr>\<rparr>, None)"
    by (simp add: taskWith_def get200_def)
  have g2: "httpGetter (taskWith get503) wrapper
        = (Some \<lparr>StatusCode = 503, Body = \<lparr>data = ''unavailable'', readErr = None\<rparr>\<rparr>, None)"
    by (simp add: taskWith_def get503_def)
  have g3: "httpGetter (taskWith getReadFailure) wrapper
        = (Some \<lparr>StatusCode = 200,
                  Body = \<lparr>data = ''O'', readErr = Some (errorString ''unexpected EOF'')\<rparr>\<rparr>, None)"
    by (simp add: taskWith_def getReadFailure_def)
  have p1: "probeCalls (snd (Execute flagsNoneForced (taskWith get200) optionsPlain upstreamAbsent []))
      = Suc (probeCalls [])"
    by (simp add: Execute_probe gate g1 probeCalls_def prepareResult_trace)
  have p2: "probeCalls (snd (Execute flagsNoneForced (taskWith get503) optionsPlain upstreamAbsent []))
      = Suc (probeCalls [])"
    by (simp add: Execute_probe gate g2 probeCalls_def prepareResult_trace)
  have p3: "probeCalls (snd (Execute flagsNoneForced (taskWith getReadFailure) optionsPlain upstreamAbsent []))
      = Suc (probeCalls [])"
    by (simp add: Execute_probe gate g3 probeCalls_def)
  have e: "bodyCloses [] = 0" by (simp add: bodyCloses_def)
  show ?thesis
    using p1 p2 p3 Execute_closes_body_once [OF p1 g1] Execute_closes_body_once [OF p2 g2] Execute_closes_body_once [OF p3 g3] by (simp add: e)
qed

text \<open>
  C8. In every Result that \<open>Execute\<close> returns, the url is non-empty exactly when
  the status is Warning or Failure.
\<close>

theorem Execute_URL_iff_Warning_or_Failure:
  assumes "fst (Execute Flags p op up t) = Inr r"
  shows "(URL r \<noteq> []) = (Status r = Warning \<or> Status r = Failure)"
proof (cases "IsForcedTask Flags ''Base/Collector/ConnectEU''
     \<or> prepareEarlyResult (p\<lparr>upstream := up\<rparr>) = Result_zero")
  case True
  from Execute_probe_result [OF True assms] show ?thesis
  proof (elim disjE exE)
    fix e assume "r = prepareCollectorErrorResult (p\<lparr>upstream := up\<rparr>) e"
    then show ?thesis by (simp only: URL_prepareCollectorErrorResult)
  next
    fix e sc assume "r = prepareResponseErrorResult (p\<lparr>upstream := up\<rparr>) e sc"
    then show ?thesis by (simp only: URL_prepareResponseErrorResult)
  next
    fix body sc t' assume "r = fst (prepareResult (p\<lparr>upstream := up\<rparr>) body sc t')"
    then show ?thesis by (simp only: URL_prepareResult)
  qed
next
  case False
  then have "Execute Flags p op up t = (Inr (prepareEarlyResult (p\<lparr>upstream := up\<rparr>)), t)"
    by (simp add: Execute_skip)
  with assms have "r = prepareEarlyResult (p\<lparr>upstream := up\<rparr>)" by simp
  then show ?thesis using URL_prepareEarlyResult by simp
qed

theorem Execute_URL_iff_Warning_or_Failure_witness:
  "fst (Execute flagsNoneForced (taskWith get503) optionsPlain upstreamAbsent []) =
      Inr \<lparr>Status = Warning,
           Summary = ''collector.newrelic.com (EU Region) returned a non-200 STATUS CODE: 503''
             @ ''\<newline>Please check network and proxy settings and try again or see -help for more options.''
             @ ''\<newline>Response Body: unavailable'',
           URL = ''https://docs.newrelic.com/docs/apm/new-relic-apm/getting-started/networks'',
           Payload = NilPayload\<rparr>
   \<and> (URL \<lparr>Status = Warning,
           Summary = ''collector.newrelic.com (EU Region) returned a non-200 STATUS CODE: 503''
             @ ''\<newline>Please check network and proxy settings and try again or see -help for more options.''
             @ ''\<newline>Response Body: unavailable'',
           URL = ''https://docs.newrelic.com/docs/apm/new-relic-apm/getting-started/networks'',
           Payload = NilPayload\<rparr> \<noteq> [])
      = (Status \<lparr>Status = Warning,
           Summary = ''collector.newrelic.com (EU Region) returned a non-200 STATUS CODE: 503''
             @ ''\<newline>Please check network and proxy settings and try again or see -help for more options.''
             @ ''\<newline>Response Body: unavailable'',
           URL = ''https://docs.newrelic.com/docs/apm/new-relic-apm/getting-started/networks'',
           Payload = NilPayload\<rparr> = Warning
         \<or> Status \<lparr>Status = Warning,
           Summary = ''collector.newrelic.com (EU Region) returned a non-200 STATUS CODE: 503''
             @ ''\<newline>Please check network and proxy settings and try again or see -help for more options.''
             @ ''\<newline>Response Body: unavailable'',
           URL = ''https://docs.newrelic.com/docs/apm/new-relic-apm/getting-started/networks'',
           Payload = NilPayload\<rparr> = Failure)"
proof -
  have gate: "prepareEarlyResult (taskWith get503\<lparr>upstream := upstreamAbsent\<rparr>) = Result_zero"
    by (simp add: prepareEarlyResult_cases lookup_def upstreamAbsent_def Result_zero_def)
  have g: "httpGetter (taskWith get503) wrapper
        = (Some \<lparr>StatusCode = 503, Body = \<lparr>data = ''unavailable'', readErr = None\<rparr>\<rparr>, None)"
    by (simp add: taskWith_def get503_def)
  have i: "Itoa 503 = ''503''"
    by (simp add: Itoa_def utoa.simps digit_def)
  have h: "fst (Execute flagsNoneForced (taskWith get503) optionsPlain upstreamAbsent []) =
      Inr \<lparr>Status = Warning,
           Summary = ''collector.newrelic.com (EU Region) returned a non-200 STATUS CODE: 503''
             @ ''\<newline>Please check network and proxy settings and try again or see -help for more options.''
             @ ''\<newline>Response Body: unavailable'',
           URL = ''https://docs.newrelic.com/docs/apm/new-relic-apm/getting-started/networks'',
           Payload = NilPayload\<rparr>"
    by (simp add: Execute_probe gate g i prepareResult_def Result_zero_def)
  show ?thesis using h Execute_URL_iff_Warning_or_Failure [OF h] by simp
qed

text \<open>
  C2. Whenever the probe was called and returned a transport error or a response,
  \<open>Execute\<close> returns a Result (it does not panic), its status is the one the decision
  table of the specification gives for (transport error present, body-read error
  present, decimal text of the status code), and that status is Success, Warning or
  Failure. The decimal text is "200" exactly for the status code 200. The three helpers
  follow the same table for every status-code string; for the empty string
  \<open>prepareResult\<close> gives Warning.
\<close>

theorem Execute_classification_follows_table:
  assumes "probeCalls (snd (Execute Flags p op up t)) = Suc (probeCalls t)"
    and "httpGetter p wrapper = (resp, err)"
    and "err \<noteq> None \<or> resp = Some r"
  shows "(\<exists>res. fst (Execute Flags p op up t) = Inr res
            \<and> Status res = spec_decisionTable (err \<noteq> None) (readErr (Body r) \<noteq> None) (Itoa (StatusCode r))
            \<and> (Status res = Success \<or> Status res = Warning \<or> Status res = Failure))
       \<and> (Itoa (StatusCode r) = ''200'') = (StatusCode r = 200)
       \<and> Status (prepareCollectorErrorResult p (Some e)) = spec_decisionTable True body_read_error status_code
       \<and> Status (prepareResponseErrorResult p (Some e) status_code) = spec_decisionTable False True status_code
       \<and> Status (fst (prepareResult p body status_code t')) = spec_decisionTable False False status_code
       \<and> Status (fst (prepareResult p body [] t')) = Warning"
proof -
  have helpers: "Status (prepareCollectorErrorResult p (Some e)) = spec_decisionTable True body_read_error status_code
       \<and> Status (prepareResponseErrorResult p (Some e) status_code) = spec_decisionTable False True status_code
       \<and> Status (fst (prepareResult p body status_code t')) = spec_decisionTable False False status_code
       \<and> Status (fst (prepareResult p body [] t')) = Warning"
    by (simp add: prepareCollectorErrorResult_def prepareResponseErrorResult_def prepareResult_def
        spec_decisionTable_def Result_zero_def Let_def)
  have run: "\<exists>res. fst (Execute Flags p op up t) = Inr res
            \<and> Status res = spec_decisionTable (err \<noteq> None) (readErr (Body r) \<noteq> None) (Itoa (StatusCode r))
            \<and> (Status res = Success \<or> Status res = Warning \<or> Status res = Failure)"
    using assms(3)
    by (auto simp: Execute_probe [OF invoked_gate_open [OF assms(1)]] assms(2)
        prepareCollectorErrorResult_def prepareResponseErrorResult_def prepareResult_def
        spec_decisionTable_def Result_zero_def Let_def split: option.splits)
  show ?thesis using helpers run Itoa_eq_200 [of "StatusCode r"] by blast
qed

theorem Execute_classification_follows_table_witness:
  "(probeCalls (snd (Execute flagsNoneForced (taskWith getReadFailure) optionsPlain upstreamAbsent []))
      = Suc (probeCalls [])
    \<and> httpGetter (taskWith getReadFailure) wrapper
        = (Some \<lparr>StatusCode = 200,
                  Body = \<lparr>data = ''O'', readErr = Some (errorString ''unexpected EOF'')\<rparr>\<rparr>, None)
    \<and> (\<exists>res. fst (Execute flagsNoneForced (taskWith getReadFailure) optionsPlain upstreamAbsent []) = Inr res
           \<and> Status res = Warning))
   \<and> (probeCalls (snd (Execute flagsNoneForced (taskWith getRefused) optionsPlain upstreamAbsent []))
      = Suc (probeCalls [])
    \<and> httpGetter (taskWith getRefused) wrapper = (None, Some (errorString ''connection refused''))
    \<and> (\<exists>res. fst (Execute flagsNoneForced (taskWith getRefused) optionsPlain upstreamAbsent []) = Inr res
           \<and> Status res = Failure))"
proof -
  have gate: "\<And>g. prepareEarlyResult (taskWith g\<lparr>upstream := upstreamAbsent\<rparr>) = Result_zero"
    by (simp add: prepareEarlyResult_cases lookup_def upstreamAbsent_def Result_zero_def)
  have g1: "httpGetter (taskWith getReadFailure) wrapper
        = (Some \<lparr>StatusCode = 200,
                  Body = \<lparr>data = ''O'', readErr = Some (errorString ''unexpected EOF'')\<rparr>\<rparr>, None)"
    by (simp add: taskWith_def getReadFailure_def)
  have g2: "httpGetter (taskWith getRefused) wrapper = (None, Some (errorString ''connection refused''))"
    by (simp add: taskWith_def getRefused_def)
  have p1: "probeCalls (snd (Execute flagsNoneForced (taskWith getReadFailure) optionsPlain upstreamAbsent []))
      = Suc (probeCalls [])"
    by (simp add: Execute_probe gate g1 probeCalls_def)
  have p2: "probeCalls (snd (Execute flagsNoneForced (taskWith getRefused) optionsPlain upstreamAbsent []))
      = Suc (probeCalls [])"
    by (simp add: Execute_probe gate g2 probeCalls_def)
  have r1: "(None :: error option) \<noteq> None
      \<or> Some \<lparr>StatusCode = 200,
                Body = \<lparr>data = ''O'', readErr = Some (errorString ''unexpected EOF'')\<rparr>\<rparr>
         = Some \<lparr>StatusCode = 200,
                Body = \<lparr>data = ''O'', readErr = Some (errorString ''unexpected EOF'')\<rparr>\<rparr>"
    by simp
  have r2: "Some (errorString ''connection refused'') \<noteq> None
      \<or> (None :: Response option)
         = Some \<lparr>StatusCode = 200, Body = \<lparr>data = [], readErr = None\<rparr>\<rparr>"
    by simp
  have w1: "\<exists>res. fst (Execute flagsNoneForced (taskWith getReadFailure) optionsPlain upstreamAbsent []) = Inr res
           \<and> Status res = Warning"
    using Execute_classification_follows_table [OF p1 g1 r1, THEN conjunct1]
    by (auto simp: spec_decisionTable_def)
  have w2: "\<exists>res. fst (Execute flagsNoneForced (taskWith getRefused) optionsPlain upstreamAbsent []) = Inr res
           \<and> Status res = Failure"
    using Execute_classification_follows_table [OF p2 g2 r2, THEN conjunct1]
    by (auto simp: spec_decisionTable_def)
  show ?thesis
    using p1 g1 p2 g2 w1 w2 by simp
qed

text \<open>
  C9. The Results of \<open>prepareCollectorErrorResult\<close>, \<open>prepareResponseErrorResult\<close>
  and \<open>prepareResult\<close> depend on their arguments only: not on the receiver (its
  upstream store and probe) and not on the log written so far. In particular a second
  call of \<open>prepareResult\<close>, made after the first has written its log lines, returns
  the same Result.
\<close>

theorem classification_deterministic:
  "prepareCollectorErrorResult p1 e = prepareCollectorErrorResult p2 e
   \<and> prepareResponseErrorResult p1 e statusCode = prepareResponseErrorResult p2 e statusCode
   \<and> fst (prepareResult p1 body statusCode t1) = fst (prepareResult p2 body statusCode t2)
   \<and> fst (prepareResult p1 body statusCode (snd (prepareResult p1 body statusCode t1)))
       = fst (prepareResult p1 body statusCode t1)"
  by (simp add: prepareCollectorErrorResult_def prepareResponseErrorResult_def prepareResult_def
      Let_def)

text \<open>
  C10. Called with a nil error, \<open>prepareCollectorErrorResult\<close> and
  \<open>prepareResponseErrorResult\<close> return the zero-value Result: status None, empty
  summary, empty url, nil payload.
\<close>

theorem nil_error_zero_Result:
  "prepareCollectorErrorResult p None
      = \<lparr>Status = None_Status, Summary = [], URL = [], Payload = NilPayload\<rparr>
   \<and> prepareResponseErrorResult p None statusCode
      = \<lparr>Status = None_Status, Summary = [], URL = [], Payload = NilPayload\<rparr>
   \<and> prepareCollectorErrorResult p None = Result_zero
   \<and> prepareResponseErrorResult p None statusCode = Result_zero"
  by (simp add: prepareCollectorErrorResult_def prepareResponseErrorResult_def Result_zero_def)

end
